theory Spec2Isabelle
  imports Complex_Main "HOL-Library.AList"
begin

section \<open>Python values the extraction module works with\<close>

text \<open>
  The module \<^verbatim>\<open>data_utils.py\<close> scrapes tournament bracket pages. Its functions raise
  Python exceptions; the model returns them as the left summand of a result.
  Strings are \<^typ>\<open>string\<close>: one \<^typ>\<open>char\<close> per code point, so only code points
  below 256 are covered.
\<close>

datatype error =
    IndexError        \<comment> \<open>list index out of range\<close>
  | ValueError        \<comment> \<open>failed unpacking, failed \<^verbatim>\<open>float\<close>, \<^verbatim>\<open>pd.concat([])\<close>\<close>
  | KeyError          \<comment> \<open>missing attribute of a tag\<close>
  | RequestException  \<comment> \<open>\<^verbatim>\<open>requests.get\<close> failed\<close>
  | OSError           \<comment> \<open>\<^verbatim>\<open>open\<close> failed\<close>

text \<open>Sequencing of two steps: the first exception raised ends the computation.\<close>

definition seq :: "error + 'a \<Rightarrow> ('a \<Rightarrow> error + 'b) \<Rightarrow> error + 'b" where
  "seq m f = (case m of Inl e \<Rightarrow> Inl e | Inr x \<Rightarrow> f x)"

text \<open>A list comprehension whose body can raise: left to right, stopping at the first
  exception.\<close>

fun traverse :: "('a \<Rightarrow> error + 'b) \<Rightarrow> 'a list \<Rightarrow> error + 'b list" where
  "traverse f [] = Inr []"
| "traverse f (x # xs) =
     (case f x of
        Inl e \<Rightarrow> Inl e
      | Inr y \<Rightarrow> (case traverse f xs of Inl e \<Rightarrow> Inl e | Inr ys \<Rightarrow> Inr (y # ys)))"

text \<open>\<^verbatim>\<open>xs[i]\<close>: a negative index counts from the end, an index out of range raises.\<close>

definition item :: "'a list \<Rightarrow> int \<Rightarrow> error + 'a" where
  "item xs i =
     (if 0 \<le> i \<and> i < int (length xs) then Inr (xs ! nat i)
      else if i < 0 \<and> - i \<le> int (length xs) then Inr (xs ! nat (int (length xs) + i))
      else Inl IndexError)"

text \<open>\<^verbatim>\<open>xs[:-k]\<close> for a positive \<open>k\<close>: all but the last \<open>k\<close> elements, nothing when
  the list is shorter.\<close>

definition drop_last :: "nat \<Rightarrow> 'a list \<Rightarrow> 'a list" where
  "drop_last k xs = take (length xs - k) xs"

text \<open>\<^verbatim>\<open>xs[1:8]\<close>\<close>

definition slice_1_8 :: "'a list \<Rightarrow> 'a list" where
  "slice_1_8 xs = take 7 (drop 1 xs)"

subsection \<open>String methods\<close>

definition startswith :: "string \<Rightarrow> string \<Rightarrow> bool" where
  "startswith s sep = (take (length sep) s = sep)"

text \<open>\<^verbatim>\<open>sub in s\<close>\<close>

fun contains :: "string \<Rightarrow> string \<Rightarrow> bool" where
  "contains sub [] = (sub = [])"
| "contains sub (c # cs) = (if startswith (c # cs) sub then True else contains sub cs)"

text \<open>\<^verbatim>\<open>s.rsplit(sep, 1)\<close> for a non-empty separator: the string is cut at the rightmost
  occurrence of \<open>sep\<close>; without an occurrence the result is the one-element list of \<open>s\<close>.
  \<open>rfind\<close> gives the two parts around the rightmost occurrence.\<close>

fun rfind :: "string \<Rightarrow> string \<Rightarrow> (string \<times> string) option" where
  "rfind sep [] = None"
| "rfind sep (c # cs) =
     (case rfind sep cs of
        Some (a, b) \<Rightarrow> Some (c # a, b)
      | None \<Rightarrow> if startswith (c # cs) sep then Some ([], drop (length sep) (c # cs)) else None)"

definition rsplit1 :: "string \<Rightarrow> string \<Rightarrow> string list" where
  "rsplit1 sep s = (case rfind sep s of None \<Rightarrow> [s] | Some (a, b) \<Rightarrow> [a, b])"

text \<open>\<^verbatim>\<open>s.split(c)\<close> for a one-character separator.\<close>

fun split_char :: "char \<Rightarrow> string \<Rightarrow> string list" where
  "split_char sep [] = [[]]"
| "split_char sep (c # cs) =
     (if c = sep then [] # split_char sep cs
      else (case split_char sep cs of
              [] \<Rightarrow> [[c]]
            | w # ws \<Rightarrow> (c # w) # ws))"

text \<open>\<^verbatim>\<open>s.replace(',', '.')\<close>\<close>

definition replace_comma :: "string \<Rightarrow> string" where
  "replace_comma s = map (\<lambda>c. if c = CHR '','' then CHR ''.'' else c) s"

subsection \<open>\<^verbatim>\<open>float(s)\<close>\<close>

text \<open>
  CPython's \<^verbatim>\<open>float\<close> on a string: every underscore must stand between two digits and
  is removed; white space (tab to carriage return, space, and the two white-space
  characters between code points 127 and 256) is stripped at both ends; what is left must
  be, as a whole, an
  optional sign followed by \<^verbatim>\<open>inf\<close>, \<^verbatim>\<open>infinity\<close> or \<^verbatim>\<open>nan\<close> in any case, or by a
  decimal number (digits with an optional point, at least one digit, an optional
  exponent). Anything else raises \<^verbatim>\<open>ValueError\<close>. The model returns the exact value
  of the decimal number; CPython rounds it to the nearest binary64 value (to an
  infinity when it is too large), which is outside the model (a value such as 8.5 is
  its own rounding).
\<close>

datatype pyfloat = Fin rat | PosInf | NegInf | NaN

definition is_digit :: "char \<Rightarrow> bool" where
  "is_digit c = List.member ''0123456789'' c"

definition is_space :: "char \<Rightarrow> bool" where
  "is_space c =
     List.member [CHR 0x09, CHR 0x0A, CHR 0x0B, CHR 0x0C, CHR 0x0D, CHR 0x20, CHR 0x85,
       CHR 0xA0] c"

text \<open>The scan for underscores, with the previous character at hand.\<close>

fun underscores_ok :: "char \<Rightarrow> string \<Rightarrow> bool" where
  "underscores_ok prev [] = (prev \<noteq> CHR ''_'')"
| "underscores_ok prev (c # cs) =
     (if c = CHR ''_'' then (if is_digit prev then underscores_ok c cs else False)
      else if prev = CHR ''_'' then (if is_digit c then underscores_ok c cs else False)
      else underscores_ok c cs)"

definition strip :: "string \<Rightarrow> string" where
  "strip s = rev (dropWhile is_space (rev (dropWhile is_space s)))"

text \<open>ASCII lower case, for the case-insensitive match of \<^verbatim>\<open>inf\<close> and \<^verbatim>\<open>nan\<close>.\<close>

definition lower :: "char \<Rightarrow> char" where
  "lower c =
     (case map_of (zip ''ABCDEFGHIJKLMNOPQRSTUVWXYZ'' ''abcdefghijklmnopqrstuvwxyz'') c of
        None \<Rightarrow> c
      | Some d \<Rightarrow> d)"

definition digit_val :: "char \<Rightarrow> nat" where
  "digit_val c = of_char c - 48"

definition digits_val :: "string \<Rightarrow> nat" where
  "digits_val ds = fold (\<lambda>c n. 10 * n + digit_val c) ds 0"

text \<open>A leading sign: whether it is a minus, and the rest.\<close>

fun take_sign :: "string \<Rightarrow> bool \<times> string" where
  "take_sign [] = (False, [])"
| "take_sign (c # cs) =
     (if c = CHR ''-'' then (True, cs)
      else if c = CHR ''+'' then (False, cs)
      else (False, c # cs))"

text \<open>The exponent part, which must reach the end of the string.\<close>

fun parse_exponent :: "string \<Rightarrow> int option" where
  "parse_exponent [] = Some 0"
| "parse_exponent (c # cs) =
     (if c = CHR ''e'' \<or> c = CHR ''E'' then
        (case take_sign cs of
           (neg, ds) \<Rightarrow>
             if ds \<noteq> [] \<and> list_all is_digit ds
             then Some (if neg then - int (digits_val ds) else int (digits_val ds))
             else None)
      else None)"

definition scale10 :: "int \<Rightarrow> int \<Rightarrow> rat" where
  "scale10 m k = (if 0 \<le> k then of_int m * 10 ^ nat k else of_int m / 10 ^ nat (- k))"

definition parse_decimal :: "bool \<Rightarrow> string \<Rightarrow> error + pyfloat" where
  "parse_decimal neg r =
     (let ip = takeWhile is_digit r;
          r1 = dropWhile is_digit r;
          fp = (case r1 of [] \<Rightarrow> [] | c # t \<Rightarrow> if c = CHR ''.'' then takeWhile is_digit t else []);
          r2 = (case r1 of [] \<Rightarrow> [] | c # t \<Rightarrow> if c = CHR ''.'' then dropWhile is_digit t else r1)
      in if ip = [] \<and> fp = [] then Inl ValueError
         else (case parse_exponent r2 of
                 None \<Rightarrow> Inl ValueError
               | Some e \<Rightarrow>
                   let m = int (digits_val (ip @ fp))
                   in Inr (Fin (scale10 (if neg then - m else m) (e - int (length fp))))))"

definition parse_float :: "string \<Rightarrow> error + pyfloat" where
  "parse_float t =
     (case take_sign t of
        (neg, r) \<Rightarrow>
          if map lower r = ''inf'' \<or> map lower r = ''infinity''
          then Inr (if neg then NegInf else PosInf)
          else if map lower r = ''nan'' then Inr NaN
          else parse_decimal neg r)"

definition py_float :: "string \<Rightarrow> error + pyfloat" where
  "py_float s =
     (if underscores_ok (CHR 0x00) s
      then parse_float (strip (filter (\<lambda>c. c \<noteq> CHR ''_'') s))
      else Inl ValueError)"

subsection \<open>Dictionaries\<close>

text \<open>
  A dictionary is an association list in insertion order; storing under a key that is
  present replaces the value in place, as a Python \<^verbatim>\<open>dict\<close> does.
\<close>

datatype pyval = Str string | Num pyfloat

type_synonym dict = "(string \<times> pyval) list"

text \<open>\<^verbatim>\<open>d.update(e)\<close>, and \<^verbatim>\<open>dict(pairs)\<close> as the update of the empty dictionary.\<close>

definition dict_update :: "dict \<Rightarrow> (string \<times> pyval) list \<Rightarrow> dict" where
  "dict_update d e = fold (\<lambda>kv acc. AList.update (fst kv) (snd kv) acc) e d"

definition dict_of :: "(string \<times> pyval) list \<Rightarrow> dict" where
  "dict_of pairs = dict_update [] pairs"

text \<open>\<^verbatim>\<open>str(n)\<close> for a natural number.\<close>

fun str_nat :: "nat \<Rightarrow> string" where
  "str_nat n =
     (if n < 10 then [''0123456789'' ! n]
      else str_nat (n div 10) @ [''0123456789'' ! (n mod 10)])"

subsection \<open>The parsed HTML tree\<close>

text \<open>
  BeautifulSoup's parser is outside the module; the model starts from the tree it
  returns. A node is a string of text or a tag with its name, the tokens of its
  \<^verbatim>\<open>class\<close> attribute, its other attributes and its children.
\<close>

datatype node =
    Text string
  | Tag string "string list" "(string \<times> string) list" "node list"

text \<open>\<^verbatim>\<open>tag.text\<close>: all the strings below the tag, in document order.\<close>

fun text_of :: "node \<Rightarrow> string" where
  "text_of (Text s) = s"
| "text_of (Tag n cls ats cs) = concat (map text_of cs)"

text \<open>All nodes below a node, in document order (the node itself is not one of them).\<close>

fun descendants :: "node \<Rightarrow> node list" where
  "descendants (Text s) = []"
| "descendants (Tag n cls ats cs) = concat (map (\<lambda>c. c # descendants c) cs)"

fun is_tag :: "string \<Rightarrow> node \<Rightarrow> bool" where
  "is_tag n (Text s) = False"
| "is_tag n (Tag m cls ats cs) = (m = n)"

fun has_class :: "string list \<Rightarrow> node \<Rightarrow> bool" where
  "has_class wanted (Text s) = False"
| "has_class wanted (Tag m cls ats cs) = list_ex (\<lambda>c. List.member wanted c) cls"

text \<open>\<^verbatim>\<open>tag.find_all(name)\<close>\<close>

definition find_all :: "string \<Rightarrow> node \<Rightarrow> node list" where
  "find_all n t = filter (is_tag n) (descendants t)"

text \<open>\<^verbatim>\<open>tag.find_all(name, {"class": wanted})\<close>: a tag matches when one of its class
  tokens is one of the wanted ones.\<close>

definition find_all_class :: "string \<Rightarrow> string list \<Rightarrow> node \<Rightarrow> node list" where
  "find_all_class n wanted t =
     filter (\<lambda>x. is_tag n x \<and> has_class wanted x) (descendants t)"

text \<open>\<^verbatim>\<open>tag[key]\<close>\<close>

fun attr :: "node \<Rightarrow> string \<Rightarrow> error + string" where
  "attr (Text s) key = Inl KeyError"
| "attr (Tag m cls ats cs) key =
     (case map_of ats key of None \<Rightarrow> Inl KeyError | Some v \<Rightarrow> Inr v)"

section \<open>Category Page Parser\<close>

text \<open>
  \<^verbatim>\<open>requests.get\<close> followed by \<^verbatim>\<open>BeautifulSoup(page.content, 'html.parser')\<close> is the
  parameter \<open>web\<close>: the tree behind a URL, or the exception of the request.
\<close>

type_synonym web = "string \<Rightarrow> error + node"

definition category_data :: "web \<Rightarrow> string \<Rightarrow> error + (node list \<times> string \<times> string)" where
  "category_data web category_url =
     seq (web category_url) (\<lambda>soup.
     seq (item (find_all_class ''div'' [''newsheader''] soup) 0) (\<lambda>header.
       (case rsplit1 '' - '' (drop_last 2 (text_of header)) of
          [tournament, category] \<Rightarrow>
            Inr (find_all_class ''table'' [''moduletable_draw''] soup, tournament, category)
        | _ \<Rightarrow> Inl ValueError)))"

section \<open>Performance Extractor\<close>

text \<open>\<^verbatim>\<open>float(i.replace(',', '.'))\<close>, the conversion of one grade string.\<close>

definition grade_to_float :: "string \<Rightarrow> error + pyfloat" where
  "grade_to_float i = py_float (replace_comma i)"

text \<open>\<^verbatim>\<open>[prefix + str(i+1) for i in range(0, n)]\<close>\<close>

definition grade_names :: "string \<Rightarrow> nat \<Rightarrow> string list" where
  "grade_names p n = map (\<lambda>i. p @ str_nat (i + 1)) [0..<n]"

text \<open>
  The body of the loop over the result rows of a pool table: \<open>None\<close> when the row is
  passed over, the dictionary appended to \<^verbatim>\<open>data\<close> otherwise. The steps stand in the order
  in which Python evaluates them, so the first exception is the one the code raises.
\<close>

definition get_performance :: "string \<Rightarrow> string \<Rightarrow> string \<Rightarrow> node \<Rightarrow> error + dict option" where
  "get_performance tournament category pool performance =
     seq (item (find_all ''b'' performance) 0) (\<lambda>b.
     let competitor = text_of b in
     seq (item (rsplit1 '' ('' competitor) 0) (\<lambda>competitor_name.
     seq (item (rsplit1 '','' competitor) (- 1)) (\<lambda>segment.
     let nationality = drop_last 1 segment in
     seq (item (find_all ''td'' performance) 2) (\<lambda>kata_cell.
     let kata = text_of kata_cell in
     if length kata > 0 \<and> length (find_all ''tr'' performance) > 0 then
       seq (item (find_all ''tr'' performance) 0) (\<lambda>tr0.
       let TEC = find_all ''td'' tr0 in
       seq (item (find_all ''tr'' performance) 1) (\<lambda>tr1.
       let ATH = find_all ''td'' tr1 in
       let technical_grades = map text_of (slice_1_8 TEC) in
       let athletic_grades = map text_of (slice_1_8 ATH) in
       seq (item TEC (- 1)) (\<lambda>tec_last.
       seq (py_float (text_of tec_last)) (\<lambda>technical_score.
       seq (item ATH (- 1)) (\<lambda>ath_last.
       seq (py_float (text_of ath_last)) (\<lambda>athletic_score.
       seq (item (find_all ''td'' performance) (- 1)) (\<lambda>last_cell.
       seq (py_float (text_of last_cell)) (\<lambda>total_score.
       seq (traverse grade_to_float technical_grades) (\<lambda>technical_grades.
       seq (traverse grade_to_float athletic_grades) (\<lambda>athletic_grades.
       let perf_data = dict_of
             [(''Tournament'', Str tournament),
              (''Category'', Str category),
              (''Pool'', Str pool),
              (''Name'', Str competitor_name),
              (''Nationality'', Str nationality),
              (''Kata'', Str kata)] in
       let TEC_names = grade_names ''TEC'' (length technical_grades) in
       let ATH_names = grade_names ''ATH'' (length athletic_grades) in
       let perf_data = dict_update perf_data (dict_of (zip TEC_names (map Num technical_grades))) in
       let perf_data = dict_update perf_data (dict_of (zip ATH_names (map Num athletic_grades))) in
       let perf_data = dict_update perf_data (dict_of [(''Score'', Num total_score)]) in
       Inr (Some perf_data)))))))))))
     else Inr None))))"

text \<open>\<^verbatim>\<open>for k in range(len(performances))\<close>, with \<^verbatim>\<open>data\<close> passed along.\<close>

fun performances_loop ::
  "string \<Rightarrow> string \<Rightarrow> string \<Rightarrow> node list \<Rightarrow> dict list \<Rightarrow> error + dict list" where
  "performances_loop tournament category pool [] data = Inr data"
| "performances_loop tournament category pool (performance # performances) data =
     (case get_performance tournament category pool performance of
        Inl e \<Rightarrow> Inl e
      | Inr None \<Rightarrow> performances_loop tournament category pool performances data
      | Inr (Some perf_data) \<Rightarrow>
          performances_loop tournament category pool performances (data @ [perf_data]))"

text \<open>\<^verbatim>\<open>for table in tables\<close>\<close>

fun tables_loop :: "string \<Rightarrow> string \<Rightarrow> node list \<Rightarrow> dict list \<Rightarrow> error + dict list" where
  "tables_loop tournament category [] data = Inr data"
| "tables_loop tournament category (table # tables) data =
     (case item (find_all ''tr'' table) 0 of
        Inl e \<Rightarrow> Inl e
      | Inr first_row \<Rightarrow>
          (case item (split_char CHR '':'' (text_of first_row)) 1 of
             Inl e \<Rightarrow> Inl e
           | Inr pool \<Rightarrow>
               (case performances_loop tournament category pool
                       (find_all_class ''tr'' [''dctabrowwhite'', ''dctabrowgreen''] table) data of
                  Inl e \<Rightarrow> Inl e
                | Inr data' \<Rightarrow> tables_loop tournament category tables data')))"

definition get_round_performances :: "web \<Rightarrow> string \<Rightarrow> error + dict list" where
  "get_round_performances web url =
     seq (category_data web url) (\<lambda>r.
       case r of (tables, tournament, category) \<Rightarrow> tables_loop tournament category tables [])"

section \<open>Round URL Collector\<close>

definition base_path :: string where
  "base_path = ''https://www.sportdata.org/wkf/set-online/''"

text \<open>\<^verbatim>\<open>for link in datalink2s\<close>, with \<^verbatim>\<open>urls\<close> passed along.\<close>

fun urls_loop :: "node list \<Rightarrow> string list \<Rightarrow> error + string list" where
  "urls_loop [] urls = Inr urls"
| "urls_loop (link # links) urls =
     (case attr link ''title'' of
        Inl e \<Rightarrow> Inl e
      | Inr title \<Rightarrow>
          if contains ''Male Kata'' title \<or> contains ''Female Kata'' title
          then (case attr link ''href'' of
                  Inl e \<Rightarrow> Inl e
                | Inr href \<Rightarrow> urls_loop links (urls @ [base_path @ href]))
          else urls_loop links urls)"

definition get_rounds_urls :: "web \<Rightarrow> string \<Rightarrow> error + string list" where
  "get_rounds_urls web draws_url =
     seq (web draws_url) (\<lambda>soup.
       urls_loop (drop_last 3 (find_all_class ''a'' [''datalink2''] soup)) [])"

section \<open>Aggregators\<close>

text \<open>
  A pandas table is its column names and its rows; a row that has no entry for a column
  holds no value there. \<^verbatim>\<open>pd.DataFrame(data)\<close> of a list of dictionaries takes the
  keys in the order of their first appearance as columns. \<^verbatim>\<open>pd.concat(frames)\<close> raises
  \<^verbatim>\<open>ValueError\<close> (no objects to concatenate) on the empty list and otherwise joins the
  columns and puts the rows one after the other.
\<close>

record dataframe =
  columns :: "string list"
  rows :: "dict list"

definition first_appearance :: "string list \<Rightarrow> string list" where
  "first_appearance ks = rev (remdups (rev ks))"

definition DataFrame :: "dict list \<Rightarrow> dataframe" where
  "DataFrame data =
     \<lparr>columns = first_appearance (concat (map (map fst) data)), rows = data\<rparr>"

definition pd_concat :: "dataframe list \<Rightarrow> error + dataframe" where
  "pd_concat frames =
     (if frames = [] then Inl ValueError
      else Inr \<lparr>columns = first_appearance (concat (map columns frames)),
                rows = concat (map rows frames)\<rparr>)"

definition get_performances :: "web \<Rightarrow> string \<Rightarrow> error + dataframe" where
  "get_performances web draws_url =
     seq (get_rounds_urls web draws_url) (\<lambda>urls.
     seq (traverse (\<lambda>i. seq (get_round_performances web i) (\<lambda>d. Inr (DataFrame d))) urls)
       (\<lambda>data_rounds. pd_concat data_rounds))"

text \<open>\<^verbatim>\<open>s.splitlines()\<close>: a line ends at a line feed, a carriage return (with the line
  feed that follows it), or one of the other line boundaries below code point 256.\<close>

definition is_linebreak :: "char \<Rightarrow> bool" where
  "is_linebreak c =
     List.member [CHR 0x0A, CHR 0x0B, CHR 0x0C, CHR 0x0D, CHR 0x1C, CHR 0x1D, CHR 0x1E,
       CHR 0x85] c"

fun splitlines :: "string \<Rightarrow> string list" where
  "splitlines [] = []"
| "splitlines (c # cs) =
     (if c = CHR 0x0D then
        (case cs of
           [] \<Rightarrow> [[]]
         | d # ds \<Rightarrow> if d = CHR 0x0A then [] # splitlines ds else [] # splitlines cs)
      else if is_linebreak c then [] # splitlines cs
      else (case splitlines cs of
              [] \<Rightarrow> [[c]]
            | l # ls \<Rightarrow> (c # l) # ls))"

text \<open>The files the module can open: the content behind a name, if the file is there.\<close>

type_synonym files = "string \<Rightarrow> string option"

definition read_file :: "files \<Rightarrow> string \<Rightarrow> error + string" where
  "read_file files filename =
     (case files filename of None \<Rightarrow> Inl OSError | Some content \<Rightarrow> Inr content)"

definition concat_tournaments :: "web \<Rightarrow> files \<Rightarrow> string \<Rightarrow> error + dataframe" where
  "concat_tournaments web files filename =
     seq (read_file files filename) (\<lambda>content.
     let draws_urls = splitlines content in
     seq (traverse (\<lambda>url. get_performances web url) draws_urls) (\<lambda>frames. pd_concat frames))"

section \<open>The second copy of the module\<close>

text \<open>
  The repository holds the module twice: \<^verbatim>\<open>wkf_kata_machine_learning/data_utils.py\<close>,
  modelled above, and \<^verbatim>\<open>wkf-kata-machine-learning/data_utils.py\<close>, modelled here under
  primed names, function by function from its own text.
\<close>

definition category_data' :: "web \<Rightarrow> string \<Rightarrow> error + (node list \<times> string \<times> string)" where
  "category_data' web category_url =
     seq (web category_url) (\<lambda>soup.
     seq (item (find_all_class ''div'' [''newsheader''] soup) 0) (\<lambda>header.
       (case rsplit1 '' - '' (drop_last 2 (text_of header)) of
          [tournament, category] \<Rightarrow>
            Inr (find_all_class ''table'' [''moduletable_draw''] soup, tournament, category)
        | _ \<Rightarrow> Inl ValueError)))"

definition get_performance' :: "string \<Rightarrow> string \<Rightarrow> string \<Rightarrow> node \<Rightarrow> error + dict option" where
  "get_performance' tournament category pool performance =
     seq (item (find_all ''b'' performance) 0) (\<lambda>b.
     let competitor = text_of b in
     seq (item (rsplit1 '' ('' competitor) 0) (\<lambda>competitor_name.
     seq (item (rsplit1 '','' competitor) (- 1)) (\<lambda>segment.
     let nationality = drop_last 1 segment in
     seq (item (find_all ''td'' performance) 2) (\<lambda>kata_cell.
     let kata = text_of kata_cell in
     if length kata > 0 \<and> length (find_all ''tr'' performance) > 0 then
       seq (item (find_all ''tr'' performance) 0) (\<lambda>tr0.
       let TEC = find_all ''td'' tr0 in
       seq (item (find_all ''tr'' performance) 1) (\<lambda>tr1.
       let ATH = find_all ''td'' tr1 in
       let technical_grades = map text_of (slice_1_8 TEC) in
       let athletic_grades = map text_of (slice_1_8 ATH) in
       seq (item TEC (- 1)) (\<lambda>tec_last.
       seq (py_float (text_of tec_last)) (\<lambda>technical_score.
       seq (item ATH (- 1)) (\<lambda>ath_last.
       seq (py_float (text_of ath_last)) (\<lambda>athletic_score.
       seq (item (find_all ''td'' performance) (- 1)) (\<lambda>last_cell.
       seq (py_float (text_of last_cell)) (\<lambda>total_score.
       seq (traverse grade_to_float technical_grades) (\<lambda>technical_grades.
       seq (traverse grade_to_float athletic_grades) (\<lambda>athletic_grades.
       let perf_data = dict_of
             [(''Tournament'', Str tournament),
              (''Category'', Str category),
              (''Pool'', Str pool),
              (''Name'', Str competitor_name),
              (''Nationality'', Str nationality),
              (''Kata'', Str kata)] in
       let TEC_names = grade_names ''TEC'' (length technical_grades) in
       let ATH_names = grade_names ''ATH'' (length athletic_grades) in
       let perf_data = dict_update perf_data (dict_of (zip TEC_names (map Num technical_grades))) in
       let perf_data = dict_update perf_data (dict_of (zip ATH_names (map Num athletic_grades))) in
       let perf_data = dict_update perf_data (dict_of [(''Score'', Num total_score)]) in
       Inr (Some perf_data)))))))))))
     else Inr None))))"

fun performances_loop' ::
  "string \<Rightarrow> string \<Rightarrow> string \<Rightarrow> node list \<Rightarrow> dict list \<Rightarrow> error + dict list" where
  "performances_loop' tournament category pool [] data = Inr data"
| "performances_loop' tournament category pool (performance # performances) data =
     (case get_performance' tournament category pool performance of
        Inl e \<Rightarrow> Inl e
      | Inr None \<Rightarrow> performances_loop' tournament category pool performances data
      | Inr (Some perf_data) \<Rightarrow>
          performances_loop' tournament category pool performances (data @ [perf_data]))"

fun tables_loop' :: "string \<Rightarrow> string \<Rightarrow> node list \<Rightarrow> dict list \<Rightarrow> error + dict list" where
  "tables_loop' tournament category [] data = Inr data"
| "tables_loop' tournament category (table # tables) data =
     (case item (find_all ''tr'' table) 0 of
        Inl e \<Rightarrow> Inl e
      | Inr first_row \<Rightarrow>
          (case item (split_char CHR '':'' (text_of first_row)) 1 of
             Inl e \<Rightarrow> Inl e
           | Inr pool \<Rightarrow>
               (case performances_loop' tournament category pool
                       (find_all_class ''tr'' [''dctabrowwhite'', ''dctabrowgreen''] table) data of
                  Inl e \<Rightarrow> Inl e
                | Inr data' \<Rightarrow> tables_loop' tournament category tables data')))"

definition get_round_performances' :: "web \<Rightarrow> string \<Rightarrow> error + dict list" where
  "get_round_performances' web url =
     seq (category_data' web url) (\<lambda>r.
       case r of (tables, tournament, category) \<Rightarrow> tables_loop' tournament category tables [])"

fun urls_loop' :: "node list \<Rightarrow> string list \<Rightarrow> error + string list" where
  "urls_loop' [] urls = Inr urls"
| "urls_loop' (link # links) urls =
     (case attr link ''title'' of
        Inl e \<Rightarrow> Inl e
      | Inr title \<Rightarrow>
          if contains ''Male Kata'' title \<or> contains ''Female Kata'' title
          then (case attr link ''href'' of
                  Inl e \<Rightarrow> Inl e
                | Inr href \<Rightarrow> urls_loop' links (urls @ [base_path @ href]))
          else urls_loop' links urls)"

definition get_rounds_urls' :: "web \<Rightarrow> string \<Rightarrow> error + string list" where
  "get_rounds_urls' web draws_url =
     seq (web draws_url) (\<lambda>soup.
       urls_loop' (drop_last 3 (find_all_class ''a'' [''datalink2''] soup)) [])"

definition get_performances' :: "web \<Rightarrow> string \<Rightarrow> error + dataframe" where
  "get_performances' web draws_url =
     seq (get_rounds_urls' web draws_url) (\<lambda>urls.
     seq (traverse (\<lambda>i. seq (get_round_performances' web i) (\<lambda>d. Inr (DataFrame d))) urls)
       (\<lambda>data_rounds. pd_concat data_rounds))"

definition concat_tournaments' :: "web \<Rightarrow> files \<Rightarrow> string \<Rightarrow> error + dataframe" where
  "concat_tournaments' web files filename =
     seq (read_file files filename) (\<lambda>content.
     let draws_urls = splitlines content in
     seq (traverse (\<lambda>url. get_performances' web url) draws_urls) (\<lambda>frames. pd_concat frames))"

section \<open>The specification's readings\<close>

text \<open>
  Definitions that follow the words of the specification, to be compared with the
  functions above.
\<close>






text \<open>The header in the specification's words: trailing punctuation and white space are
  stripped, then the text is cut at its final \<^verbatim>\<open> - \<close>.\<close>

definition is_punct :: "char \<Rightarrow> bool" where
  "is_punct c =
     List.member ([CHR 0x21, CHR 0x22, CHR 0x23, CHR 0x24, CHR 0x25, CHR 0x26, CHR 0x27,
       CHR 0x5C, CHR 0x60] @ ''()*+,-./:;<=>?@[]^_{|}~'') c"

definition spec_header_split :: "string \<Rightarrow> (string \<times> string) option" where
  "spec_header_split header =
     rfind '' - '' (rev (dropWhile (\<lambda>c. is_punct c \<or> is_space c) (rev header)))"

text \<open>The prefix of a text before the first occurrence of a separator (the whole text
  when there is none).\<close>

fun before_first :: "string \<Rightarrow> string \<Rightarrow> string" where
  "before_first sep [] = []"
| "before_first sep (c # cs) =
     (if startswith (c # cs) sep then [] else c # before_first sep cs)"


section \<open>Sample pages\<close>

definition td :: "string \<Rightarrow> node" where
  "td s = Tag ''td'' [] [] [Text s]"

definition grades_row :: "string list \<Rightarrow> node" where
  "grades_row cells = Tag ''tr'' [] [] (map td cells)"

text \<open>A result row: rank, identity in bold, kata, the nested grade rows, final score.\<close>

definition result_row :: "string \<Rightarrow> string \<Rightarrow> node list \<Rightarrow> string \<Rightarrow> node" where
  "result_row who kata subrows score =
     Tag ''tr'' [''dctabrowwhite''] []
       [td ''1'', Tag ''td'' [] [] [Tag ''b'' [] [] [Text who]], td kata,
        Tag ''td'' [] [] [Tag ''table'' [] [] subrows], td score]"

definition row_full :: node where
  "row_full = result_row ''A (B) C (D, JPN)'' ''001 Anan''
     [grades_row [''TEC'', ''8,5'', ''8,0'', ''8,5'', ''8,0'', ''8,5'', ''8,0'', ''8,5'', ''25.2''],
      grades_row [''ATH'', ''8,5'', ''8,0'', ''8,5'', ''8,0'', ''8,5'', ''8,0'', ''8,5'', ''25.2'']]
     ''25.2''"

text \<open>The dictionary the extractor builds from \<open>row_full\<close>.\<close>

definition record_full :: dict where
  "record_full =
     [(''Tournament'', Str ''T''), (''Category'', Str ''C''), (''Pool'', Str ''P''),
      (''Name'', Str ''A (B) C''), (''Nationality'', Str '' JPN''), (''Kata'', Str ''001 Anan''),
      (''TEC1'', Num (Fin (17 / 2))), (''TEC2'', Num (Fin 8)), (''TEC3'', Num (Fin (17 / 2))),
      (''TEC4'', Num (Fin 8)), (''TEC5'', Num (Fin (17 / 2))), (''TEC6'', Num (Fin 8)),
      (''TEC7'', Num (Fin (17 / 2))),
      (''ATH1'', Num (Fin (17 / 2))), (''ATH2'', Num (Fin 8)), (''ATH3'', Num (Fin (17 / 2))),
      (''ATH4'', Num (Fin 8)), (''ATH5'', Num (Fin (17 / 2))), (''ATH6'', Num (Fin 8)),
      (''ATH7'', Num (Fin (17 / 2))),
      (''Score'', Num (Fin (126 / 5)))]"

definition row_short :: node where
  "row_short = result_row ''A (B, JPN)'' ''001 Anan''
     [grades_row [''TEC'', ''8,5'', ''25.2''], grades_row [''ATH'', ''8,0'', ''25.2'']] ''25.2''"

definition row_one_subrow :: node where
  "row_one_subrow = result_row ''A (B, JPN)'' ''001 Anan''
     [grades_row [''TEC'', ''8,5'', ''25.2'']] ''25.2''"

definition row_no_show :: node where
  "row_no_show = result_row ''E (F, ESP)'' [] [] []"

definition header_div :: "string \<Rightarrow> node" where
  "header_div s = Tag ''div'' [''newsheader''] [] [Text s]"

definition pool_table :: "string \<Rightarrow> node list \<Rightarrow> node" where
  "pool_table label result_rows =
     Tag ''table'' [''moduletable_draw''] [] (Tag ''tr'' [] [] [td label] # result_rows)"

definition document :: "node list \<Rightarrow> node" where
  "document nodes = Tag ''[document]'' [] [] nodes"

definition category_link :: "string \<Rightarrow> string \<Rightarrow> node" where
  "category_link title href =
     Tag ''a'' [''datalink2''] [(''title'', title), (''href'', href)] [Text title]"

definition page_round :: node where
  "page_round = document [header_div ''Cup - Male Kata: '', pool_table ''Pool: 1 / 1'' [row_short, row_no_show]]"

definition page_no_header :: node where
  "page_no_header = document [pool_table ''Pool: 1 / 1'' [row_short]]"

definition page_no_tables :: node where
  "page_no_tables = document [header_div ''Cup - Male Kata: '']"

definition page_plain_header :: node where
  "page_plain_header = document [header_div ''Cup - Male Kata'']"

definition page_draws :: node where
  "page_draws = document
     [category_link ''Male Kata'' ''a.php'', category_link ''Male Kumite -60 kg'' ''b.php'',
      category_link ''Female Kata'' ''c.php'', category_link ''Male Kata'' ''a.php'',
      category_link ''Summary'' ''x.php'', category_link ''Female Kata Final'' ''y.php'',
      category_link ''Results'' ''z.php'']"

definition page_kumite_only :: node where
  "page_kumite_only = document
     [category_link ''Male Kumite -60 kg'' ''b.php'', category_link ''Summary'' ''x.php'',
      category_link ''Overview'' ''y.php'', category_link ''Results'' ''z.php'']"

text \<open>A web of finitely many pages; every other request fails.\<close>

definition web_of :: "(string \<times> node) list \<Rightarrow> web" where
  "web_of pages url = (case map_of pages url of None \<Rightarrow> Inl RequestException | Some n \<Rightarrow> Inr n)"

definition sample_web :: web where
  "sample_web = web_of
     [(''round'', page_round), (''noheader'', page_no_header), (''notables'', page_no_tables),
      (''plain'', page_plain_header), (''draws'', page_draws), (''kumite'', page_kumite_only)]"

definition sample_files :: files where
  "sample_files = map_of [(''empty.txt'', [])]"

section \<open>Properties\<close>

subsection \<open>Auxiliary facts\<close>

lemma seq_Inr [simp]: "seq (Inr x) f = f x"
  by (simp add: seq_def)

lemma seq_Inl [simp]: "seq (Inl e) f = Inl e"
  by (simp add: seq_def)

lemma item_0: "item xs 0 = (case xs of [] \<Rightarrow> Inl IndexError | x # _ \<Rightarrow> Inr x)"
  by (cases xs) (simp_all add: item_def)

lemma item_last: "item xs (- 1) = (if xs = [] then Inl IndexError else Inr (last xs))"
proof (cases xs rule: rev_cases)
  case Nil
  then show ?thesis by (simp add: item_def)
next
  case (snoc ys y)
  have "nat (int (Suc (length ys)) + - 1) = length ys" by simp
  with snoc show ?thesis
    by (simp add: item_def del: of_nat_Suc)
qed

lemma item_nat: "item xs (int k) = (if k < length xs then Inr (xs ! k) else Inl IndexError)"
  by (simp add: item_def)

lemma rfind_None_iff: "sep \<noteq> [] \<Longrightarrow> (rfind sep s = None) = (\<not> contains sep s)"
  by (induction s) (auto split: option.splits)

lemma rfind_rightmost:
  assumes "sep \<noteq> []" and "\<not> contains sep (tl (sep @ c))"
  shows "rfind sep (t @ sep @ c) = Some (t, c)"
proof (induction t)
  case Nil
  from assms(1) obtain x sep' where sep: "sep = x # sep'" by (cases sep) auto
  with assms have "rfind sep (sep' @ c) = None"
    by (simp add: rfind_None_iff)
  then show ?case
    by (simp add: sep startswith_def)
next
  case (Cons y t)
  then show ?case by simp
qed

lemma rfind_Some:
  "sep \<noteq> [] \<Longrightarrow> rfind sep s = Some (a, b) \<Longrightarrow> s = a @ sep @ b \<and> \<not> contains sep (tl (sep @ b))"
proof (induction s arbitrary: a)
  case Nil
  then show ?case by simp
next
  case (Cons c cs)
  show ?case
  proof (cases "rfind sep cs")
    case None
    with Cons.prems have st: "startswith (c # cs) sep" and a: "a = []" and b: "b = drop (length sep) (c # cs)"
      by (auto split: if_splits)
    from st have eq: "c # cs = sep @ b"
      unfolding startswith_def b by (metis append_take_drop_id)
    from Cons.prems(1) eq have "tl (sep @ b) = cs" by (metis list.sel(3))
    with None Cons.prems(1) have "\<not> contains sep (tl (sep @ b))"
      by (simp add: rfind_None_iff)
    with eq a show ?thesis by simp
  next
    case (Some p)
    obtain a' b' where p: "p = (a', b')" by (cases p)
    with Some Cons.prems have "a = c # a'" "b' = b" by auto
    with Cons.IH[OF Cons.prems(1), of a'] Some p show ?thesis by simp
  qed
qed

lemma rsplit1_cases:
  assumes ne: "sep \<noteq> []"
  shows "(\<not> contains sep s \<and> rsplit1 sep s = [s]) \<or>
   (\<exists>a b. s = a @ sep @ b \<and> \<not> contains sep (tl (sep @ b)) \<and> rsplit1 sep s = [a, b])"
proof (cases "rfind sep s")
  case None
  then have "rsplit1 sep s = [s]" by (simp add: rsplit1_def)
  moreover from None have "\<not> contains sep s" using rfind_None_iff[OF ne, of s] by simp
  ultimately show ?thesis by blast
next
  case (Some p)
  obtain a b where p: "p = (a, b)" by (cases p)
  with Some have "rsplit1 sep s = [a, b]" by (simp add: rsplit1_def)
  with rfind_Some[OF ne, of s a b] Some p show ?thesis by blast
qed

lemma category_data_fetched:
  "web url = Inr soup \<Longrightarrow>
   category_data web url =
     (case find_all_class ''div'' [''newsheader''] soup of
        [] \<Rightarrow> Inl IndexError
      | header # _ \<Rightarrow>
          (case rfind '' - '' (drop_last 2 (text_of header)) of
             None \<Rightarrow> Inl ValueError
           | Some (tournament, category) \<Rightarrow>
               Inr (find_all_class ''table'' [''moduletable_draw''] soup, tournament, category)))"
  by (simp add: category_data_def item_0 rsplit1_def split: list.splits option.splits)

lemma sample_web_round: "sample_web ''round'' = Inr page_round"
  by (simp add: sample_web_def web_of_def)
lemma sample_web_noheader: "sample_web ''noheader'' = Inr page_no_header"
  by (simp add: sample_web_def web_of_def)
lemma sample_web_notables: "sample_web ''notables'' = Inr page_no_tables"
  by (simp add: sample_web_def web_of_def)
lemma sample_web_plain: "sample_web ''plain'' = Inr page_plain_header"
  by (simp add: sample_web_def web_of_def)
lemma sample_web_kumite: "sample_web ''kumite'' = Inr page_kumite_only"
  by (simp add: sample_web_def web_of_def)

subsection \<open>The header of a category page\<close>

text \<open>
  Claim C5, as the code has it. The Category Page Parser removes the last two characters
  of the header text, whatever they are. When what remains contains \<^verbatim>\<open> - \<close>, the parser
  returns the pool tables, the part before the final \<^verbatim>\<open> - \<close> as tournament name and the
  part after it as category name (no \<^verbatim>\<open> - \<close> starts later than the cut).
\<close>

theorem category_data_header_split:
  assumes "web url = Inr soup"
    and "find_all_class ''div'' [''newsheader''] soup = header # others"
    and "contains '' - '' (drop_last 2 (text_of header))"
  shows "\<exists>tournament category.
           category_data web url =
             Inr (find_all_class ''table'' [''moduletable_draw''] soup, tournament, category) \<and>
           drop_last 2 (text_of header) = tournament @ '' - '' @ category \<and>
           \<not> contains '' - '' (''- '' @ category)"
proof -
  from assms(3) have "rfind '' - '' (drop_last 2 (text_of header)) \<noteq> None"
    using rfind_None_iff[of "'' - ''" "drop_last 2 (text_of header)"] by simp
  then obtain t c where r: "rfind '' - '' (drop_last 2 (text_of header)) = Some (t, c)"
    by auto
  from rfind_Some[OF _ r]
  have "drop_last 2 (text_of header) = t @ '' - '' @ c" and "\<not> contains '' - '' (''- '' @ c)"
    by simp_all
  moreover from assms(1,2) r
  have "category_data web url = Inr (find_all_class ''table'' [''moduletable_draw''] soup, t, c)"
    by (simp add: category_data_fetched)
  ultimately show ?thesis by blast
qed

lemma page_round_header:
  "find_all_class ''div'' [''newsheader''] page_round = [header_div ''Cup - Male Kata: '']"
  by code_simp

theorem category_data_header_split_witness:
  "\<exists>tournament category.
     category_data sample_web ''round'' =
       Inr (find_all_class ''table'' [''moduletable_draw''] page_round, tournament, category) \<and>
     drop_last 2 (text_of (header_div ''Cup - Male Kata: '')) = tournament @ '' - '' @ category \<and>
     \<not> contains '' - '' (''- '' @ category)"
proof (rule category_data_header_split)
  show "sample_web ''round'' = Inr page_round" by (rule sample_web_round)
  show "find_all_class ''div'' [''newsheader''] page_round = header_div ''Cup - Male Kata: '' # []"
    by (rule page_round_header)
  show "contains '' - '' (drop_last 2 (text_of (header_div ''Cup - Male Kata: '')))"
    by code_simp
qed

text \<open>
  A header without trailing punctuation: the specification's reading gives the category
  \<^verbatim>\<open>Male Kata\<close>, the code returns \<^verbatim>\<open>Male Ka\<close>.
\<close>

theorem category_data_header_counterexample:
  "contains '' - '' (text_of (header_div ''Cup - Male Kata'')) \<and>
   find_all_class ''div'' [''newsheader''] page_plain_header = [header_div ''Cup - Male Kata''] \<and>
   spec_header_split (text_of (header_div ''Cup - Male Kata'')) = Some (''Cup'', ''Male Kata'') \<and>
   category_data sample_web ''plain'' = Inr ([], ''Cup'', ''Male Ka'')"
  by code_simp

subsection \<open>When the Category Page Parser fails\<close>

text \<open>
  Claim C8, as the code has it. On a fetched page the parser raises \<^verbatim>\<open>IndexError\<close> when
  there is no header block and \<^verbatim>\<open>ValueError\<close> when the header text without its last two
  characters has no \<^verbatim>\<open> - \<close>; in every other case it returns, with whatever pool tables
  the page has, also with none.
\<close>

theorem category_data_failures:
  assumes "web url = Inr soup"
  shows "(find_all_class ''div'' [''newsheader''] soup = [] \<longrightarrow>
            category_data web url = Inl IndexError) \<and>
         (\<forall>header others.
            find_all_class ''div'' [''newsheader''] soup = header # others \<and>
            \<not> contains '' - '' (drop_last 2 (text_of header)) \<longrightarrow>
            category_data web url = Inl ValueError) \<and>
         (\<forall>header others.
            find_all_class ''div'' [''newsheader''] soup = header # others \<and>
            contains '' - '' (drop_last 2 (text_of header)) \<longrightarrow>
            (\<exists>tournament category. category_data web url =
               Inr (find_all_class ''table'' [''moduletable_draw''] soup, tournament, category)))"
proof (intro conjI allI impI)
  assume "find_all_class ''div'' [''newsheader''] soup = []"
  with assms show "category_data web url = Inl IndexError"
    by (simp add: category_data_fetched)
next
  fix header others
  assume h: "find_all_class ''div'' [''newsheader''] soup = header # others \<and>
    \<not> contains '' - '' (drop_last 2 (text_of header))"
  then have "rfind '' - '' (drop_last 2 (text_of header)) = None"
    using rfind_None_iff[of "'' - ''" "drop_last 2 (text_of header)"] by simp
  with assms h show "category_data web url = Inl ValueError"
    by (simp add: category_data_fetched)
next
  fix header others
  assume h: "find_all_class ''div'' [''newsheader''] soup = header # others \<and>
    contains '' - '' (drop_last 2 (text_of header))"
  then have "rfind '' - '' (drop_last 2 (text_of header)) \<noteq> None"
    using rfind_None_iff[of "'' - ''" "drop_last 2 (text_of header)"] by simp
  then obtain t c where "rfind '' - '' (drop_last 2 (text_of header)) = Some (t, c)"
    by auto
  with assms h show "\<exists>tournament category. category_data web url =
      Inr (find_all_class ''table'' [''moduletable_draw''] soup, tournament, category)"
    by (simp add: category_data_fetched)
qed

theorem category_data_failures_witness:
  "category_data sample_web ''noheader'' = Inl IndexError"
proof -
  have e: "find_all_class ''div'' [''newsheader''] page_no_header = []"
    by code_simp
  from category_data_failures[of sample_web "''noheader''" page_no_header, OF sample_web_noheader]
  have "find_all_class ''div'' [''newsheader''] page_no_header = [] \<longrightarrow>
          category_data sample_web ''noheader'' = Inl IndexError"
    by (rule conjunct1)
  from this e show ?thesis by (rule mp)
qed

text \<open>A page with a header and no pool table: the parser returns the empty list of tables.\<close>

theorem category_data_no_tables_counterexample:
  "find_all_class ''table'' [''moduletable_draw''] page_no_tables = [] \<and>
   category_data sample_web ''notables'' = Inr ([], ''Cup'', ''Male Kata'')"
  by code_simp





subsection \<open>The Round URL Collector\<close>



subsection \<open>Aggregating nothing\<close>

text \<open>
  Claim C10. When the Round URL Collector yields no link for an event page,
  \<open>get_performances\<close> raises \<^verbatim>\<open>ValueError\<close> (the concatenation of an empty list of
  tables) and returns no table; \<open>concat_tournaments\<close> does the same on a file without
  lines.
\<close>

theorem aggregators_fail_on_empty:
  "(get_rounds_urls web draws_url = Inr [] \<longrightarrow> get_performances web draws_url = Inl ValueError) \<and>
   (files filename = Some content \<and> splitlines content = [] \<longrightarrow>
      concat_tournaments web files filename = Inl ValueError)"
  by (simp add: get_performances_def concat_tournaments_def read_file_def pd_concat_def)

theorem aggregators_fail_on_empty_witness:
  "get_performances sample_web ''kumite'' = Inl ValueError \<and>
   concat_tournaments sample_web sample_files ''empty.txt'' = Inl ValueError"
proof -
  have u: "get_rounds_urls sample_web ''kumite'' = Inr []" by code_simp
  have f: "sample_files ''empty.txt'' = Some [] \<and> splitlines [] = []"
    by (simp add: sample_files_def)
  note t = aggregators_fail_on_empty[of sample_web "''kumite''" sample_files "''empty.txt''" "[]"]
  from t have "get_rounds_urls sample_web ''kumite'' = Inr [] \<longrightarrow>
      get_performances sample_web ''kumite'' = Inl ValueError" by (rule conjunct1)
  from this u have a: "get_performances sample_web ''kumite'' = Inl ValueError" by (rule mp)
  from t have "sample_files ''empty.txt'' = Some [] \<and> splitlines [] = [] \<longrightarrow>
      concat_tournaments sample_web sample_files ''empty.txt'' = Inl ValueError" by (rule conjunct2)
  from this f have b: "concat_tournaments sample_web sample_files ''empty.txt'' = Inl ValueError"
    by (rule mp)
  from a b show ?thesis by (rule conjI)
qed

subsection \<open>The two copies\<close>

lemma category_data_copy: "category_data' = category_data"
  unfolding category_data'_def category_data_def by (rule refl)

lemma get_performance_copy: "get_performance' = get_performance"
  unfolding get_performance'_def get_performance_def by (rule refl)

lemma performances_loop_copy:
  "performances_loop' t c p rs data = performances_loop t c p rs data"
  by (induction rs arbitrary: data)
    (simp_all add: get_performance_copy split: sum.splits option.splits)

lemma tables_loop_copy: "tables_loop' t c ts data = tables_loop t c ts data"
  by (induction ts arbitrary: data)
    (simp_all add: performances_loop_copy split: sum.splits)

lemma get_round_performances_copy: "get_round_performances' = get_round_performances"
  by (intro ext) (simp add: get_round_performances'_def get_round_performances_def
      category_data_copy tables_loop_copy)

lemma urls_loop_copy: "urls_loop' links urls = urls_loop links urls"
  by (induction links arbitrary: urls) (simp_all split: sum.splits)

lemma get_rounds_urls_copy: "get_rounds_urls' = get_rounds_urls"
  by (intro ext) (simp add: get_rounds_urls'_def get_rounds_urls_def urls_loop_copy)

lemma get_performances_copy: "get_performances' = get_performances"
  by (intro ext) (simp add: get_performances'_def get_performances_def
      get_rounds_urls_copy get_round_performances_copy)

text \<open>
  Claim C9. Each public function of the second copy of the module is the same function
  as its counterpart in the first copy.
\<close>

theorem copies_equivalent:
  "category_data' = category_data \<and>
   get_round_performances' = get_round_performances \<and>
   get_rounds_urls' = get_rounds_urls \<and>
   get_performances' = get_performances \<and>
   concat_tournaments' = concat_tournaments"
proof (intro conjI)
  show "concat_tournaments' = concat_tournaments"
    by (intro ext) (simp add: concat_tournaments'_def concat_tournaments_def get_performances_copy)
qed (rule category_data_copy get_round_performances_copy get_rounds_urls_copy
      get_performances_copy)+

theorem copies_equivalent_witness:
  "get_round_performances' sample_web ''round'' = get_round_performances sample_web ''round'' \<and>
   get_rounds_urls' sample_web ''draws'' = get_rounds_urls sample_web ''draws''"
  using copies_equivalent by simp

subsection \<open>Facts about \<^verbatim>\<open>float\<close>\<close>
































subsection \<open>Facts about dictionaries and the extractor\<close>

lemma update_fresh: "k \<notin> fst ` set d \<Longrightarrow> AList.update k v d = d @ [(k, v)]"
  by (induction d) auto

lemma dict_update_fresh:
  "distinct (map fst e) \<Longrightarrow> fst ` set e \<inter> fst ` set d = {} \<Longrightarrow> dict_update d e = d @ e"
proof (induction e arbitrary: d)
  case Nil
  then show ?case by (simp add: dict_update_def)
next
  case (Cons kv e)
  obtain k v where kv: "kv = (k, v)" by (cases kv)
  from Cons.prems kv have fresh: "k \<notin> fst ` set d" by auto
  from Cons.prems kv have "distinct (map fst e)" and "fst ` set e \<inter> fst ` set (d @ [(k, v)]) = {}"
    by auto
  then have "dict_update (d @ [(k, v)]) e = (d @ [(k, v)]) @ e" by (rule Cons.IH)
  with fresh kv show ?case
    by (simp add: dict_update_def update_fresh)
qed

lemma dict_of_distinct: "distinct (map fst e) \<Longrightarrow> dict_of e = e"
  using dict_update_fresh[of e "[]"] by (simp add: dict_of_def)

lemma str_nat_digit:
  "str_nat 1 = ''1''" "str_nat 2 = ''2''" "str_nat 3 = ''3''" "str_nat 4 = ''4''"
  "str_nat 5 = ''5''" "str_nat 6 = ''6''" "str_nat 7 = ''7''"
  "str_nat (Suc 0) = ''1''" "str_nat (Suc (Suc 0)) = ''2''"
  by simp_all

lemma grade_names_7:
  "grade_names p 7 = [p @ ''1'', p @ ''2'', p @ ''3'', p @ ''4'', p @ ''5'', p @ ''6'', p @ ''7'']"
proof -
  have "[0..<7] = [0, 1, 2, 3, 4, 5, 6::nat]" by (simp add: upt_rec)
  then show ?thesis
    unfolding grade_names_def by (simp add: str_nat_digit del: str_nat.simps)
qed

lemma grade_names_take: "n \<le> m \<Longrightarrow> grade_names p n = take n (grade_names p m)"
  by (simp add: grade_names_def take_map)

lemma length_grade_names: "length (grade_names p n) = n"
  by (simp add: grade_names_def)

lemma grade_names_le7:
  assumes "n \<le> 7"
  shows "distinct (grade_names p n)"
    and "set (grade_names p n) \<subseteq> set (grade_names p 7)"
proof -
  have d7: "distinct (grade_names p 7)" unfolding grade_names_7 by simp
  from assms have t: "grade_names p n = take n (grade_names p 7)" by (rule grade_names_take)
  from d7 show "distinct (grade_names p n)" unfolding t by (rule distinct_take)
  show "set (grade_names p n) \<subseteq> set (grade_names p 7)" unfolding t by (rule set_take_subset)
qed

lemma keys_zip_names: "length vs = n \<Longrightarrow> map fst (zip (grade_names p n) vs) = grade_names p n"
  by (simp add: length_grade_names)

lemma perf_dict_form:
  fixes tg ag :: "pyfloat list" and t c p n na k :: string
  assumes tn: "length tg \<le> 7" and an: "length ag \<le> 7"
  defines "base \<equiv> [(''Tournament'', Str t), (''Category'', Str c), (''Pool'', Str p),
                     (''Name'', Str n), (''Nationality'', Str na), (''Kata'', Str k)]"
  defines "TZ \<equiv> zip (grade_names ''TEC'' (length tg)) (map Num tg)"
  defines "AZ \<equiv> zip (grade_names ''ATH'' (length ag)) (map Num ag)"
  shows "dict_update (dict_update (dict_update (dict_of base) (dict_of TZ)) (dict_of AZ))
           (dict_of [(''Score'', Num sc)]) = base @ TZ @ AZ @ [(''Score'', Num sc)]"
proof -
  have kb: "map fst base = [''Tournament'', ''Category'', ''Pool'', ''Name'', ''Nationality'', ''Kata'']"
    by (simp add: base_def)
  have kt: "map fst TZ = grade_names ''TEC'' (length tg)"
    unfolding TZ_def by (rule keys_zip_names) simp
  have ka: "map fst AZ = grade_names ''ATH'' (length ag)"
    unfolding AZ_def by (rule keys_zip_names) simp
  have st: "set (map fst TZ) \<subseteq> set (grade_names ''TEC'' 7)"
    unfolding kt using tn by (rule grade_names_le7(2))
  have sa: "set (map fst AZ) \<subseteq> set (grade_names ''ATH'' 7)"
    unfolding ka using an by (rule grade_names_le7(2))
  have dt: "distinct (map fst TZ)" unfolding kt using tn by (rule grade_names_le7(1))
  have da: "distinct (map fst AZ)" unfolding ka using an by (rule grade_names_le7(1))
  have db: "distinct (map fst base)" unfolding kb by simp
  have tb: "set (grade_names ''TEC'' 7) \<inter> set (map fst base) = {}"
    unfolding kb grade_names_7 by simp
  have ab: "set (grade_names ''ATH'' 7) \<inter> set (map fst base) = {}"
    unfolding kb grade_names_7 by simp
  have at: "set (grade_names ''ATH'' 7) \<inter> set (grade_names ''TEC'' 7) = {}"
    unfolding grade_names_7 by simp
  have sb: "''Score'' \<notin> set (map fst base)" unfolding kb by simp
  have s7: "''Score'' \<notin> set (grade_names ''TEC'' 7)" "''Score'' \<notin> set (grade_names ''ATH'' 7)"
    unfolding grade_names_7 by simp_all
  have 1: "dict_of base = base" using db by (rule dict_of_distinct)
  have 2: "dict_of TZ = TZ" using dt by (rule dict_of_distinct)
  have 3: "dict_of AZ = AZ" using da by (rule dict_of_distinct)
  have 4: "dict_of [(''Score'', Num sc)] = [(''Score'', Num sc)]"
    by (rule dict_of_distinct) simp
  have 5: "dict_update base TZ = base @ TZ"
  proof (rule dict_update_fresh[OF dt])
    from st tb show "fst ` set TZ \<inter> fst ` set base = {}"
      unfolding image_set by blast
  qed
  have 6: "dict_update (base @ TZ) AZ = (base @ TZ) @ AZ"
  proof (rule dict_update_fresh[OF da])
    have "fst ` set (base @ TZ) = set (map fst base) \<union> set (map fst TZ)"
      by (auto simp: image_Un)
    with sa st ab at show "fst ` set AZ \<inter> fst ` set (base @ TZ) = {}"
      unfolding image_set by blast
  qed
  have 7: "dict_update ((base @ TZ) @ AZ) [(''Score'', Num sc)] = ((base @ TZ) @ AZ) @ [(''Score'', Num sc)]"
  proof (rule dict_update_fresh)
    show "distinct (map fst [(''Score'', Num sc)])" by simp
    have "fst ` set ((base @ TZ) @ AZ) = set (map fst base) \<union> set (map fst TZ) \<union> set (map fst AZ)"
      by (auto simp: image_Un)
    with sa st sb s7 show "fst ` set [(''Score'', Num sc)] \<inter> fst ` set ((base @ TZ) @ AZ) = {}"
      by auto
  qed
  show ?thesis unfolding 1 2 3 4 5 6 7 by simp
qed

lemma traverse_length: "traverse f xs = Inr ys \<Longrightarrow> length ys = length xs"
  by (induction xs arbitrary: ys) (auto split: sum.splits)

lemma length_slice_1_8: "length (slice_1_8 xs) = min 7 (length xs - 1)"
  by (simp add: slice_1_8_def)

lemma item_2: "item xs 2 = (if 2 < length xs then Inr (xs ! 2) else Inl IndexError)"
  by (simp add: item_def)

lemma item_1: "item xs 1 = (if 1 < length xs then Inr (xs ! 1) else Inl IndexError)"
  by (simp add: item_def)

lemma seq_Inr_iff: "(seq m f = Inr y) = (\<exists>x. m = Inr x \<and> f x = Inr y)"
  by (cases m) simp_all

lemma rsplit1_first: "\<exists>x. item (rsplit1 sep s) 0 = Inr x"
  by (simp add: rsplit1_def item_0 split: option.splits)

lemma rsplit1_last: "\<exists>x. item (rsplit1 sep s) (- 1) = Inr x"
  by (simp add: rsplit1_def item_last split: option.splits)

lemma get_performance_raw:
  assumes "get_performance t c p r = Inr (Some d)"
  shows "\<exists>b name seg kata_cell tr0 tr1 last_cell sc tg ag.
      item (find_all ''b'' r) 0 = Inr b \<and>
      item (rsplit1 '' ('' (text_of b)) 0 = Inr name \<and>
      item (rsplit1 '','' (text_of b)) (- 1) = Inr seg \<and>
      item (find_all ''td'' r) 2 = Inr kata_cell \<and>
      text_of kata_cell \<noteq> [] \<and>
      item (find_all ''tr'' r) 0 = Inr tr0 \<and>
      item (find_all ''tr'' r) 1 = Inr tr1 \<and>
      item (find_all ''td'' r) (- 1) = Inr last_cell \<and>
      py_float (text_of last_cell) = Inr sc \<and>
      traverse grade_to_float (map text_of (slice_1_8 (find_all ''td'' tr0))) = Inr tg \<and>
      traverse grade_to_float (map text_of (slice_1_8 (find_all ''td'' tr1))) = Inr ag \<and>
      d = dict_update (dict_update (dict_update
            (dict_of [(''Tournament'', Str t), (''Category'', Str c), (''Pool'', Str p),
                      (''Name'', Str name), (''Nationality'', Str (drop_last 1 seg)),
                      (''Kata'', Str (text_of kata_cell))])
            (dict_of (zip (grade_names ''TEC'' (length tg)) (map Num tg))))
            (dict_of (zip (grade_names ''ATH'' (length ag)) (map Num ag))))
            (dict_of [(''Score'', Num sc)])"
  using assms unfolding get_performance_def Let_def
  by (auto simp: seq_Inr_iff split: if_splits)


lemma rsplit1_items:
  "item (rsplit1 sep s) 0 = Inr (case rfind sep s of None \<Rightarrow> s | Some (a, b) \<Rightarrow> a)"
  "item (rsplit1 sep s) (- 1) = Inr (case rfind sep s of None \<Rightarrow> s | Some (a, b) \<Rightarrow> b)"
  by (simp_all add: rsplit1_def item_0 item_last split: option.splits)

lemma get_performance_Some:
  assumes "get_performance t c p r = Inr (Some d)"
  shows "\<exists>tg ag sc.
      find_all ''b'' r \<noteq> [] \<and>
      2 < length (find_all ''td'' r) \<and>
      text_of (find_all ''td'' r ! 2) \<noteq> [] \<and>
      1 < length (find_all ''tr'' r) \<and>
      traverse grade_to_float
        (map text_of (slice_1_8 (find_all ''td'' (find_all ''tr'' r ! 0)))) = Inr tg \<and>
      traverse grade_to_float
        (map text_of (slice_1_8 (find_all ''td'' (find_all ''tr'' r ! 1)))) = Inr ag \<and>
      py_float (text_of (last (find_all ''td'' r))) = Inr sc \<and>
      d = [(''Tournament'', Str t), (''Category'', Str c), (''Pool'', Str p),
           (''Name'', Str (case rfind '' ('' (text_of (hd (find_all ''b'' r))) of
                             None \<Rightarrow> text_of (hd (find_all ''b'' r)) | Some (a, b) \<Rightarrow> a)),
           (''Nationality'', Str (drop_last 1
                            (case rfind '','' (text_of (hd (find_all ''b'' r))) of
                               None \<Rightarrow> text_of (hd (find_all ''b'' r)) | Some (a, b) \<Rightarrow> b))),
           (''Kata'', Str (text_of (find_all ''td'' r ! 2)))] @
          zip (grade_names ''TEC'' (length tg)) (map Num tg) @
          zip (grade_names ''ATH'' (length ag)) (map Num ag) @
          [(''Score'', Num sc)]"
proof -
  from get_performance_raw[OF assms]
  obtain b name seg kata_cell tr0 tr1 last_cell sc tg ag where
    b: "item (find_all ''b'' r) 0 = Inr b" and
    name: "item (rsplit1 '' ('' (text_of b)) 0 = Inr name" and
    seg: "item (rsplit1 '','' (text_of b)) (- 1) = Inr seg" and
    kc: "item (find_all ''td'' r) 2 = Inr kata_cell" and
    kata: "text_of kata_cell \<noteq> []" and
    tr0: "item (find_all ''tr'' r) 0 = Inr tr0" and
    tr1: "item (find_all ''tr'' r) 1 = Inr tr1" and
    lc: "item (find_all ''td'' r) (- 1) = Inr last_cell" and
    sc: "py_float (text_of last_cell) = Inr sc" and
    tg: "traverse grade_to_float (map text_of (slice_1_8 (find_all ''td'' tr0))) = Inr tg" and
    ag: "traverse grade_to_float (map text_of (slice_1_8 (find_all ''td'' tr1))) = Inr ag" and
    d: "d = dict_update (dict_update (dict_update
            (dict_of [(''Tournament'', Str t), (''Category'', Str c), (''Pool'', Str p),
                      (''Name'', Str name), (''Nationality'', Str (drop_last 1 seg)),
                      (''Kata'', Str (text_of kata_cell))])
            (dict_of (zip (grade_names ''TEC'' (length tg)) (map Num tg))))
            (dict_of (zip (grade_names ''ATH'' (length ag)) (map Num ag))))
            (dict_of [(''Score'', Num sc)])"
    by (elim exE conjE) (rule that, assumption+)
  from b have bne: "find_all ''b'' r \<noteq> []" and bhd: "b = hd (find_all ''b'' r)"
    by (auto simp: item_0 split: list.splits)
  from kc have k2: "2 < length (find_all ''td'' r)" and kc': "kata_cell = find_all ''td'' r ! 2"
    by (auto simp: item_2 split: if_splits)
  from tr1 have t1: "1 < length (find_all ''tr'' r)" and tr1': "tr1 = find_all ''tr'' r ! 1"
    by (auto simp: item_1 split: if_splits)
  from tr0 t1 have tr0': "tr0 = find_all ''tr'' r ! 0"
    by (cases "find_all ''tr'' r") (auto simp: item_0)
  from lc have lc': "last_cell = last (find_all ''td'' r)"
    by (auto simp: item_last split: if_splits)
  from name have name': "name = (case rfind '' ('' (text_of b) of None \<Rightarrow> text_of b | Some (a, b) \<Rightarrow> a)"
    by (simp add: rsplit1_items)
  from seg have seg': "seg = (case rfind '','' (text_of b) of None \<Rightarrow> text_of b | Some (a, b) \<Rightarrow> b)"
    by (simp add: rsplit1_items)
  from traverse_length[OF tg] have ltg: "length tg \<le> 7" by (simp add: length_slice_1_8)
  from traverse_length[OF ag] have lag: "length ag \<le> 7" by (simp add: length_slice_1_8)
  note form = perf_dict_form[OF ltg lag, of t c p name "drop_last 1 seg" "text_of kata_cell" sc]
  from d form have "d = [(''Tournament'', Str t), (''Category'', Str c), (''Pool'', Str p),
                      (''Name'', Str name), (''Nationality'', Str (drop_last 1 seg)),
                      (''Kata'', Str (text_of kata_cell))] @
          zip (grade_names ''TEC'' (length tg)) (map Num tg) @
          zip (grade_names ''ATH'' (length ag)) (map Num ag) @
          [(''Score'', Num sc)]" by simp
  with bne k2 kata t1 tg ag sc show ?thesis
    unfolding name' seg' bhd kc' tr0' tr1' lc' by blast
qed

lemma get_performance_None_iff:
  assumes "find_all ''b'' r \<noteq> []" and "2 < length (find_all ''td'' r)"
  shows "(get_performance t c p r = Inr None) =
           (text_of (find_all ''td'' r ! 2) = [] \<or> find_all ''tr'' r = [])"
proof -
  from assms(1) obtain b bs where b: "find_all ''b'' r = b # bs"
    by (cases "find_all ''b'' r") auto
  then have ib: "item (find_all ''b'' r) 0 = Inr b" by (simp add: item_0)
  from assms(2) have ik: "item (find_all ''td'' r) 2 = Inr (find_all ''td'' r ! 2)"
    by (simp add: item_2)
  show ?thesis
    unfolding get_performance_def Let_def ib ik seq_Inr rsplit1_items
    by (auto simp: seq_Inr_iff)
qed

lemma performances_loop_skip:
  "get_performance t c p r = Inr None \<Longrightarrow>
   performances_loop t c p (before @ r # after) data = performances_loop t c p (before @ after) data"
  by (induction before arbitrary: data) (simp_all split: sum.splits option.splits)

lemma row_full_record: "get_performance ''T'' ''C'' ''P'' row_full = Inr (Some record_full)"
  by code_simp


lemma contains_single: "contains [x] s = (x \<in> set s)"
  by (induction s) (auto simp: startswith_def)

lemma contains_pair: "contains [a, b] s \<Longrightarrow> b \<in> set (tl s)"
proof (induction s)
  case Nil
  then show ?case by simp
next
  case (Cons c cs)
  show ?case
  proof (cases "startswith (c # cs) [a, b]")
    case True
    then show ?thesis by (cases cs) (auto simp: startswith_def)
  next
    case False
    with Cons.prems have "contains [a, b] cs" by simp
    then have "b \<in> set (tl cs)" by (rule Cons.IH)
    then show ?thesis by (cases cs) auto
  qed
qed

lemma perf_dict_lookup:
  fixes tg ag :: "pyfloat list" and t c p n na k :: string and sc :: pyfloat
  assumes tn: "length tg \<le> 7" and an: "length ag \<le> 7"
  defines "d \<equiv> [(''Tournament'', Str t), (''Category'', Str c), (''Pool'', Str p),
                  (''Name'', Str n), (''Nationality'', Str na), (''Kata'', Str k)] @
                 zip (grade_names ''TEC'' (length tg)) (map Num tg) @
                 zip (grade_names ''ATH'' (length ag)) (map Num ag) @
                 [(''Score'', Num sc)]"
  shows "map_of d ''Name'' = Some (Str n)" "map_of d ''Nationality'' = Some (Str na)"
    "map_of d ''Kata'' = Some (Str k)" "map_of d ''Score'' = Some (Num sc)"
    "map fst d = [''Tournament'', ''Category'', ''Pool'', ''Name'', ''Nationality'', ''Kata''] @
       grade_names ''TEC'' (length tg) @ grade_names ''ATH'' (length ag) @ [''Score'']"
proof -
  show "map_of d ''Name'' = Some (Str n)" "map_of d ''Nationality'' = Some (Str na)"
    "map_of d ''Kata'' = Some (Str k)"
    unfolding d_def by simp_all
  have kt: "map fst (zip (grade_names ''TEC'' (length tg)) (map Num tg)) = grade_names ''TEC'' (length tg)"
    by (rule keys_zip_names) simp
  have ka: "map fst (zip (grade_names ''ATH'' (length ag)) (map Num ag)) = grade_names ''ATH'' (length ag)"
    by (rule keys_zip_names) simp
  show "map fst d = [''Tournament'', ''Category'', ''Pool'', ''Name'', ''Nationality'', ''Kata''] @
       grade_names ''TEC'' (length tg) @ grade_names ''ATH'' (length ag) @ [''Score'']"
    unfolding d_def by (simp add: kt ka del: map_fst_zip)
  have "''Score'' \<notin> set (grade_names ''TEC'' 7)" "''Score'' \<notin> set (grade_names ''ATH'' 7)"
    unfolding grade_names_7 by simp_all
  with grade_names_le7(2)[OF tn, of "''TEC''"] grade_names_le7(2)[OF an, of "''ATH''"]
  have "''Score'' \<notin> set (grade_names ''TEC'' (length tg))"
    "''Score'' \<notin> set (grade_names ''ATH'' (length ag))" by blast+
  then have "map_of (zip (grade_names ''TEC'' (length tg)) (map Num tg)) ''Score'' = None"
    "map_of (zip (grade_names ''ATH'' (length ag)) (map Num ag)) ''Score'' = None"
    unfolding map_of_eq_None_iff image_set kt ka by simp_all
  then show "map_of d ''Score'' = Some (Num sc)"
    unfolding d_def by (simp add: map_add_def)
qed

subsection \<open>Rows that are passed over\<close>

text \<open>
  Claim C1, as the code has it. For a result row with a bold identity element and at
  least three cells, the extractor passes the row over, raising nothing, exactly when
  the kata label is empty or the row has no nested sub-row at all; such a row changes
  nothing in what the loop over the rows of the pool returns, whatever stands before
  and after it.
\<close>

theorem incomplete_row_omitted:
  assumes "find_all ''b'' r \<noteq> []" and "2 < length (find_all ''td'' r)"
  shows "((get_performance t c p r = Inr None) =
            (text_of (find_all ''td'' r ! 2) = [] \<or> find_all ''tr'' r = [])) \<and>
         (text_of (find_all ''td'' r ! 2) = [] \<or> find_all ''tr'' r = [] \<longrightarrow>
            performances_loop t c p (before @ r # after) data =
            performances_loop t c p (before @ after) data)"
proof (intro conjI impI)
  show iff: "(get_performance t c p r = Inr None) =
               (text_of (find_all ''td'' r ! 2) = [] \<or> find_all ''tr'' r = [])"
    using assms by (rule get_performance_None_iff)
  assume "text_of (find_all ''td'' r ! 2) = [] \<or> find_all ''tr'' r = []"
  with iff have "get_performance t c p r = Inr None" by simp
  then show "performances_loop t c p (before @ r # after) data =
             performances_loop t c p (before @ after) data"
    by (rule performances_loop_skip)
qed

theorem incomplete_row_omitted_witness:
  "get_performance ''T'' ''C'' ''P'' row_no_show = Inr None \<and>
   performances_loop ''T'' ''C'' ''P'' [row_short, row_no_show] [] =
   performances_loop ''T'' ''C'' ''P'' [row_short] []"
proof -
  have b: "find_all ''b'' row_no_show \<noteq> []" by code_simp
  have n: "2 < length (find_all ''td'' row_no_show)" by code_simp
  have k: "text_of (find_all ''td'' row_no_show ! 2) = [] \<or> find_all ''tr'' row_no_show = []"
    by code_simp
  note t = incomplete_row_omitted[OF b n, of "''T''" "''C''" "''P''" "[row_short]" "[]" "[]"]
  from t k have 1: "get_performance ''T'' ''C'' ''P'' row_no_show = Inr None" by simp
  from t k have "performances_loop ''T'' ''C'' ''P'' ([row_short] @ row_no_show # []) [] =
      performances_loop ''T'' ''C'' ''P'' ([row_short] @ []) []" by blast
  then have 2: "performances_loop ''T'' ''C'' ''P'' [row_short, row_no_show] [] =
      performances_loop ''T'' ''C'' ''P'' [row_short] []" by simp
  from 1 2 show ?thesis by (rule conjI)
qed

text \<open>A row with a kata and a single nested sub-row: the extractor raises
  \<^verbatim>\<open>IndexError\<close>, and with it the whole loop over the rows.\<close>

theorem one_subrow_counterexample:
  "find_all ''b'' row_one_subrow \<noteq> [] \<and>
   text_of (find_all ''td'' row_one_subrow ! 2) = ''001 Anan'' \<and>
   length (find_all ''tr'' row_one_subrow) = 1 \<and>
   get_performance ''T'' ''C'' ''P'' row_one_subrow = Inl IndexError \<and>
   performances_loop ''T'' ''C'' ''P'' [row_full, row_one_subrow] [] = Inl IndexError"
  by code_simp

subsection \<open>The fields of an emitted record\<close>

text \<open>
  Claim C2, as the code has it. An emitted record has the six context fields, one
  technical grade field for each cell at positions 1 to 7 of the first sub-row (seven
  at most, fewer when the sub-row is shorter, named \<^verbatim>\<open>TEC1\<close> onwards), as many
  athletic grade fields for the second sub-row, and the score; its kata is not empty.
\<close>

theorem emitted_record_fields:
  assumes "get_performance t c p r = Inr (Some d)"
  shows "map fst d =
           [''Tournament'', ''Category'', ''Pool'', ''Name'', ''Nationality'', ''Kata''] @
           grade_names ''TEC'' (min 7 (length (find_all ''td'' (find_all ''tr'' r ! 0)) - 1)) @
           grade_names ''ATH'' (min 7 (length (find_all ''td'' (find_all ''tr'' r ! 1)) - 1)) @
           [''Score''] \<and>
         (\<exists>kata. map_of d ''Kata'' = Some (Str kata) \<and> kata \<noteq> [])"
proof -
  let ?who = "text_of (hd (find_all ''b'' r))"
  let ?na = "case rfind '' ('' ?who of None \<Rightarrow> ?who | Some (a, b) \<Rightarrow> a"
  let ?nat = "drop_last 1 (case rfind '','' ?who of None \<Rightarrow> ?who | Some (a, b) \<Rightarrow> b)"
  from get_performance_Some[OF assms] obtain tg ag sc where
    kata: "text_of (find_all ''td'' r ! 2) \<noteq> []" and
    tg: "traverse grade_to_float
        (map text_of (slice_1_8 (find_all ''td'' (find_all ''tr'' r ! 0)))) = Inr tg" and
    ag: "traverse grade_to_float
        (map text_of (slice_1_8 (find_all ''td'' (find_all ''tr'' r ! 1)))) = Inr ag" and
    d: "d = [(''Tournament'', Str t), (''Category'', Str c), (''Pool'', Str p),
           (''Name'', Str ?na), (''Nationality'', Str ?nat),
           (''Kata'', Str (text_of (find_all ''td'' r ! 2)))] @
          zip (grade_names ''TEC'' (length tg)) (map Num tg) @
          zip (grade_names ''ATH'' (length ag)) (map Num ag) @
          [(''Score'', Num sc)]"
    by blast
  from traverse_length[OF tg]
  have ltg: "length tg = min 7 (length (find_all ''td'' (find_all ''tr'' r ! 0)) - 1)"
    by (simp add: length_slice_1_8)
  from traverse_length[OF ag]
  have lag: "length ag = min 7 (length (find_all ''td'' (find_all ''tr'' r ! 1)) - 1)"
    by (simp add: length_slice_1_8)
  from ltg lag have le: "length tg \<le> 7" "length ag \<le> 7" by simp_all
  note look = perf_dict_lookup[OF le, of t c p ?na ?nat "text_of (find_all ''td'' r ! 2)" sc]
  from look(5) have "map fst d =
           [''Tournament'', ''Category'', ''Pool'', ''Name'', ''Nationality'', ''Kata''] @
           grade_names ''TEC'' (length tg) @ grade_names ''ATH'' (length ag) @ [''Score'']"
    unfolding d .
  moreover from look(3) have "map_of d ''Kata'' = Some (Str (text_of (find_all ''td'' r ! 2)))"
    unfolding d .
  ultimately show ?thesis using kata unfolding ltg lag by blast
qed

theorem emitted_record_fields_witness:
  "map fst record_full =
     [''Tournament'', ''Category'', ''Pool'', ''Name'', ''Nationality'', ''Kata''] @
     grade_names ''TEC'' (min 7 (length (find_all ''td'' (find_all ''tr'' row_full ! 0)) - 1)) @
     grade_names ''ATH'' (min 7 (length (find_all ''td'' (find_all ''tr'' row_full ! 1)) - 1)) @
     [''Score''] \<and>
   (\<exists>kata. map_of record_full ''Kata'' = Some (Str kata) \<and> kata \<noteq> [])"
  by (rule emitted_record_fields[OF row_full_record])

text \<open>Sub-rows of three cells: the record has two technical and two athletic grades.\<close>

theorem short_subrow_counterexample:
  "length (find_all ''td'' (find_all ''tr'' row_short ! 0)) = 3 \<and>
   get_performance ''T'' ''C'' ''P'' row_short =
     Inr (Some [(''Tournament'', Str ''T''), (''Category'', Str ''C''), (''Pool'', Str ''P''),
                (''Name'', Str ''A''), (''Nationality'', Str '' JPN''), (''Kata'', Str ''001 Anan''),
                (''TEC1'', Num (Fin (17 / 2))), (''TEC2'', Num (Fin (126 / 5))),
                (''ATH1'', Num (Fin 8)), (''ATH2'', Num (Fin (126 / 5))),
                (''Score'', Num (Fin (126 / 5)))])"
  by code_simp

subsection \<open>The final score\<close>



subsection \<open>The conversion of a grade string\<close>




subsection \<open>Name and nationality\<close>

text \<open>
  Claim C6, as the code has it. For an emitted record whose bold identity text is
  \<^verbatim>\<open><name> (<city>,<rest>)\<close>, with no opening parenthesis in city and rest and no
  comma in rest, the name field is \<^verbatim>\<open><name>\<close> (the text before the last \<^verbatim>\<open> (\<close>) and
  the nationality field is \<^verbatim>\<open><rest>\<close>, the text between the last comma and the final
  character.
\<close>

theorem emitted_identity:
  assumes rec: "get_performance t c p r = Inr (Some d)"
    and form: "text_of (hd (find_all ''b'' r)) = name @ '' ('' @ city @ '','' @ rest @ '')''"
    and city: "CHR ''('' \<notin> set city"
    and rest: "CHR ''('' \<notin> set rest" "CHR '','' \<notin> set rest"
  shows "map_of d ''Name'' = Some (Str name) \<and> map_of d ''Nationality'' = Some (Str rest)"
proof -
  let ?who = "text_of (hd (find_all ''b'' r))"
  have "\<not> contains '' ('' (tl ('' ('' @ city @ '','' @ rest @ '')''))"
  proof
    assume "contains '' ('' (tl ('' ('' @ city @ '','' @ rest @ '')''))"
    then have "CHR ''('' \<in> set (tl (tl ('' ('' @ city @ '','' @ rest @ '')'')))"
      by (rule contains_pair)
    with city rest(1) show False by simp
  qed
  then have "rfind '' ('' (name @ '' ('' @ (city @ '','' @ rest @ '')'')) =
      Some (name, city @ '','' @ rest @ '')'')"
    by (intro rfind_rightmost) simp_all
  then have n: "rfind '' ('' ?who = Some (name, city @ '','' @ rest @ '')'')"
    unfolding form by simp
  from rest(2) have "\<not> contains '','' (tl ('','' @ rest @ '')''))"
    by (simp add: contains_single)
  then have "rfind '','' ((name @ '' ('' @ city) @ '','' @ (rest @ '')'')) =
      Some (name @ '' ('' @ city, rest @ '')'')"
    by (intro rfind_rightmost) simp_all
  then have s: "rfind '','' ?who = Some (name @ '' ('' @ city, rest @ '')'')"
    unfolding form by simp
  from get_performance_Some[OF rec] obtain tg ag sc where
    tg: "traverse grade_to_float
        (map text_of (slice_1_8 (find_all ''td'' (find_all ''tr'' r ! 0)))) = Inr tg" and
    ag: "traverse grade_to_float
        (map text_of (slice_1_8 (find_all ''td'' (find_all ''tr'' r ! 1)))) = Inr ag" and
    d: "d = [(''Tournament'', Str t), (''Category'', Str c), (''Pool'', Str p),
           (''Name'', Str (case rfind '' ('' ?who of None \<Rightarrow> ?who | Some (a, b) \<Rightarrow> a)),
           (''Nationality'', Str (drop_last 1
                (case rfind '','' ?who of None \<Rightarrow> ?who | Some (a, b) \<Rightarrow> b))),
           (''Kata'', Str (text_of (find_all ''td'' r ! 2)))] @
          zip (grade_names ''TEC'' (length tg)) (map Num tg) @
          zip (grade_names ''ATH'' (length ag)) (map Num ag) @
          [(''Score'', Num sc)]"
    by blast
  from traverse_length[OF tg] traverse_length[OF ag]
  have le: "length tg \<le> 7" "length ag \<le> 7" by (simp_all add: length_slice_1_8)
  have dl: "drop_last 1 (rest @ '')'') = rest" "drop_last (Suc 0) (rest @ '')'') = rest"
    by (simp_all add: drop_last_def)
  from d have d': "d = [(''Tournament'', Str t), (''Category'', Str c), (''Pool'', Str p),
           (''Name'', Str name), (''Nationality'', Str rest),
           (''Kata'', Str (text_of (find_all ''td'' r ! 2)))] @
          zip (grade_names ''TEC'' (length tg)) (map Num tg) @
          zip (grade_names ''ATH'' (length ag)) (map Num ag) @
          [(''Score'', Num sc)]"
    unfolding n s by (simp add: dl)
  from perf_dict_lookup(1,2)[OF le, of t c p name rest "text_of (find_all ''td'' r ! 2)" sc]
  show ?thesis unfolding d' by (rule conjI)
qed

theorem emitted_identity_witness:
  "map_of record_full ''Name'' = Some (Str ''A (B) C'') \<and>
   map_of record_full ''Nationality'' = Some (Str '' JPN'')"
proof (rule emitted_identity[OF row_full_record])
  show "text_of (hd (find_all ''b'' row_full)) = ''A (B) C'' @ '' ('' @ ''D'' @ '','' @ '' JPN'' @ '')''"
    by code_simp
qed simp_all

text \<open>An identity text with a parenthesis inside the name: the prefix before the first
  \<^verbatim>\<open> (\<close> is \<^verbatim>\<open>A\<close>, the name field is \<^verbatim>\<open>A (B) C\<close>; the nationality field keeps the space
  after the comma.\<close>

theorem first_parenthesis_counterexample:
  "text_of (hd (find_all ''b'' row_full)) = ''A (B) C (D, JPN)'' \<and>
   before_first '' ('' ''A (B) C (D, JPN)'' = ''A'' \<and>
   get_performance ''T'' ''C'' ''P'' row_full = Inr (Some record_full) \<and>
   map_of record_full ''Name'' = Some (Str ''A (B) C'') \<and>
   map_of record_full ''Nationality'' = Some (Str '' JPN'')"
  by code_simp

end
